theory Spec2Isabelle
  imports Main "HOL-Library.Word" "HOL-Library.Sublist"
begin

unbundle bit_operations_syntax

section \<open>The embedding server of \<open>bge-server/server.py\<close>\<close>

text \<open>
  The server has two POST handlers, \<open>embed\<close> and \<open>embed_single\<close>, each a
  \<open>try\<close> block closed by \<open>except Exception\<close>. A handler reads three things
  from outside itself: the body of the request through Flask's \<open>request.get_json()\<close>,
  the process environment through \<open>os.environ\<close>, and the embedding model through
  \<open>model.encode\<close>. Each of them is an argument of the model of the handler below; the
  builtins of Python the handlers use (\<open>not\<close>, \<open>in\<close>, indexing, \<open>int\<close>, \<open>str\<close>,
  \<open>min\<close>, \<open>len\<close>) are written out.
\<close>

subsection \<open>Values\<close>

text \<open>
  A Python \<open>float\<close> is an IEEE 754 double; it is kept as its 64 bits, since no handler
  computes with one. A \<open>char\<close> stands for a code point below 256, so every \<open>str\<close>
  here (a string of the body, a value of the environment, a message) is one of such code
  points.
\<close>

type_synonym pyfloat = "64 word"

text \<open>
  What \<open>json.loads\<close> builds: \<open>None\<close>, \<open>bool\<close>, \<open>int\<close>, \<open>float\<close>, \<open>str\<close>,
  \<open>list\<close> and \<open>dict\<close>. A \<open>dict\<close> is an association list read by \<open>map_of\<close>.
  The same type holds what \<open>jsonify\<close> serialises.
\<close>

datatype json =
    JNull
  | JBool bool
  | JInt int
  | JFloat pyfloat
  | JStr string
  | JArr "json list"
  | JObj "(string \<times> json) list"

text \<open>
  The instances of \<open>Exception\<close> a handler can meet. \<open>Raised\<close> is an exception of a
  library (Flask, FlagEmbedding, numpy, torch), given by its \<open>str()\<close>.
\<close>

datatype py_error =
    TypeError string
  | ValueError string
  | KeyError string
  | IndexError string
  | Raised string

subsection \<open>Builtins of Python\<close>

text \<open>
  The messages of the exceptions are the ones CPython 3.11 to 3.13 prints; the handlers
  only pass them on, and no property below depends on their wording.
\<close>

text \<open>\<open>str(n)\<close> for an \<open>int\<close>.\<close>

definition digit_char :: "nat \<Rightarrow> char" where
  "digit_char d = char_of (48 + d)"

fun str_nat :: "nat \<Rightarrow> string" where
  "str_nat n = (if n < 10 then [digit_char n] else str_nat (n div 10) @ [digit_char (n mod 10)])"

declare str_nat.simps [simp del]

definition str_int :: "int \<Rightarrow> string" where
  "str_int i = (if i < 0 then CHR ''-'' # str_nat (nat (- i)) else str_nat (nat i))"

text \<open>\<open>repr(s)\<close> for a \<open>str\<close> of code points below 256.\<close>

definition hex_char :: "nat \<Rightarrow> char" where
  "hex_char d = (if d < 10 then char_of (48 + d) else char_of (87 + d))"

definition isprintable :: "char \<Rightarrow> bool" where
  "isprintable c =
     (let n = of_char c :: nat
      in (32 \<le> n \<and> n < 127) \<or> (161 \<le> n \<and> n \<noteq> 173))"

definition repr_char :: "char \<Rightarrow> char \<Rightarrow> string" where
  "repr_char quote c =
     (if c = quote \<or> c = CHR 0x5C then [CHR 0x5C, c]
      else if c = CHR 0x09 then [CHR 0x5C, CHR ''t'']
      else if c = CHR 0x0A then [CHR 0x5C, CHR ''n'']
      else if c = CHR 0x0D then [CHR 0x5C, CHR ''r'']
      else if isprintable c then [c]
      else [CHR 0x5C, CHR ''x'', hex_char (of_char c div 16), hex_char (of_char c mod 16)])"

definition py_repr :: "string \<Rightarrow> string" where
  "py_repr s =
     (let quote = (if CHR 0x27 \<in> set s \<and> CHR 0x22 \<notin> set s then CHR 0x22 else CHR 0x27)
      in [quote] @ concat (map (repr_char quote) s) @ [quote])"

text \<open>\<open>str(e)\<close> for an exception; a \<open>KeyError\<close> prints the \<open>repr\<close> of its key.\<close>

fun str_exc :: "py_error \<Rightarrow> string" where
  "str_exc (TypeError m) = m"
| "str_exc (ValueError m) = m"
| "str_exc (KeyError k) = py_repr k"
| "str_exc (IndexError m) = m"
| "str_exc (Raised m) = m"

text \<open>
  \<open>int(s)\<close> for a \<open>str\<close>, base 10: white space around, one sign, digits with single
  underscores between them; more than 4300 digits are refused (the default of
  \<open>sys.set_int_max_str_digits\<close>). The message of a failed parse holds the first 200
  characters of \<open>repr(s)\<close>.

  The white space \<open>int\<close> skips is not the one of \<open>str.isspace\<close>: of the
  characters below 128 it is tab to carriage return (9 to 13) and the space (32), which
  leaves out the separators 28 to 31; a character above 127 counts when Unicode has it
  as white space, which below 256 is 133 and 160. No character from 128 to 255 is a
  decimal digit.
\<close>

definition int_space :: "char \<Rightarrow> bool" where
  "int_space c =
     (let n = of_char c :: nat
      in (9 \<le> n \<and> n \<le> 13) \<or> n = 32 \<or> n = 133 \<or> n = 160)"

definition isdigit :: "char \<Rightarrow> bool" where
  "isdigit c = (let n = of_char c :: nat in 48 \<le> n \<and> n \<le> 57)"

definition int_strip :: "string \<Rightarrow> string" where
  "int_strip s = rev (dropWhile int_space (rev (dropWhile int_space s)))"

fun double_underscore :: "string \<Rightarrow> bool" where
  "double_underscore (a # b # cs) =
     ((a = CHR ''_'' \<and> b = CHR ''_'') \<or> double_underscore (b # cs))"
| "double_underscore _ = False"

definition digits_value :: "string \<Rightarrow> int" where
  "digits_value ds = foldl (\<lambda>acc c. 10 * acc + (int (of_char c) - 48)) 0 ds"

definition invalid_literal :: "string \<Rightarrow> py_error" where
  "invalid_literal s =
     ValueError (''invalid literal for int() with base 10: '' @ take 200 (py_repr s))"

definition py_int :: "string \<Rightarrow> py_error + int" where
  "py_int s =
     (let t = int_strip s;
          (sign, u) = (case t of
                         c # r \<Rightarrow> if c = CHR ''+'' then (1, r)
                                  else if c = CHR ''-'' then (- 1, r)
                                  else (1, t)
                       | [] \<Rightarrow> (1, t));
          run = takeWhile (\<lambda>c. isdigit c \<or> c = CHR ''_'') u;
          rest = dropWhile (\<lambda>c. isdigit c \<or> c = CHR ''_'') u;
          ds = filter isdigit run
      in if run = [] \<or> hd run = CHR ''_'' \<or> double_underscore run \<or> last run = CHR ''_''
         then Inl (invalid_literal s)
         else if length ds > 4300
         then Inl (ValueError
                (''Exceeds the limit (4300 digits) for integer string conversion: value has ''
                 @ str_nat (length ds)
                 @ '' digits; use sys.set_int_max_str_digits() to increase the limit''))
         else if rest \<noteq> [] then Inl (invalid_literal s)
         else Inr (sign * digits_value ds))"

text \<open>Truth value of an object, as \<open>not data\<close> tests it.\<close>

definition float_is_zero :: "pyfloat \<Rightarrow> bool" where
  "float_is_zero w = (w AND mask 63 = 0)"

fun truthy :: "json \<Rightarrow> bool" where
  "truthy JNull = False"
| "truthy (JBool b) = b"
| "truthy (JInt i) = (i \<noteq> 0)"
| "truthy (JFloat w) = (\<not> float_is_zero w)"
| "truthy (JStr s) = (s \<noteq> [])"
| "truthy (JArr xs) = (xs \<noteq> [])"
| "truthy (JObj kvs) = (kvs \<noteq> [])"

text \<open>
  \<open>key in data\<close> for a \<open>str\<close> key: a key of a \<open>dict\<close>, an element of a \<open>list\<close>, a
  substring of a \<open>str\<close>; a \<open>TypeError\<close> on anything else.
\<close>

definition not_iterable :: "string \<Rightarrow> py_error" where
  "not_iterable ty = TypeError (''argument of type '' @ py_repr ty @ '' is not iterable'')"

fun py_in :: "string \<Rightarrow> json \<Rightarrow> py_error + bool" where
  "py_in k (JObj kvs) = Inr (map_of kvs k \<noteq> None)"
| "py_in k (JArr xs) = Inr (JStr k \<in> set xs)"
| "py_in k (JStr s) = Inr (sublist k s)"
| "py_in k JNull = Inl (not_iterable ''NoneType'')"
| "py_in k (JBool b) = Inl (not_iterable ''bool'')"
| "py_in k (JInt i) = Inl (not_iterable ''int'')"
| "py_in k (JFloat w) = Inl (not_iterable ''float'')"

text \<open>\<open>isinstance(x, list)\<close> and \<open>isinstance(x, str)\<close>.\<close>

fun isinstance_list :: "json \<Rightarrow> bool" where
  "isinstance_list (JArr xs) = True"
| "isinstance_list _ = False"

fun isinstance_str :: "json \<Rightarrow> bool" where
  "isinstance_str (JStr s) = True"
| "isinstance_str _ = False"

text \<open>\<open>data[key]\<close> for a \<open>str\<close> key.\<close>

definition not_subscriptable :: "string \<Rightarrow> py_error" where
  "not_subscriptable ty = TypeError (py_repr ty @ '' object is not subscriptable'')"

fun py_getitem :: "json \<Rightarrow> string \<Rightarrow> py_error + json" where
  "py_getitem (JObj kvs) k =
     (case map_of kvs k of None \<Rightarrow> Inl (KeyError k) | Some v \<Rightarrow> Inr v)"
| "py_getitem (JArr xs) k =
     Inl (TypeError ''list indices must be integers or slices, not str'')"
| "py_getitem (JStr s) k =
     Inl (TypeError (''string indices must be integers, not '' @ py_repr ''str''))"
| "py_getitem JNull k = Inl (not_subscriptable ''NoneType'')"
| "py_getitem (JBool b) k = Inl (not_subscriptable ''bool'')"
| "py_getitem (JInt i) k = Inl (not_subscriptable ''int'')"
| "py_getitem (JFloat w) k = Inl (not_subscriptable ''float'')"

subsection \<open>Requests, responses, the environment and the model\<close>

text \<open>
  A request is what \<open>request.get_json()\<close> does on it: it returns the parsed body, or it
  raises (Flask's \<open>on_json_loading_failed\<close> raises \<open>BadRequest\<close>, an \<open>Exception\<close>,
  on a body that does not parse).
\<close>

datatype request = Request (get_json: "py_error + json")

text \<open>What a handler returns: \<open>jsonify(body), status\<close>; the status is 200 when not given.\<close>

record response =
  status :: nat
  body :: json

text \<open>\<open>os.environ\<close>.\<close>

type_synonym environ = "string \<rightharpoonup> string"

text \<open>
  One call of \<open>model.encode\<close>: the sentences, the keyword \<open>batch_size\<close> when it is
  given, and the keyword \<open>max_length\<close>. The model answers with the rows of
  \<open>result["dense_vecs"]\<close>, or raises.
\<close>

record encode_call =
  texts :: "json list"
  batch_size :: "nat option"
  max_length :: nat

type_synonym model = "encode_call \<Rightarrow> py_error + pyfloat list list"

text \<open>What a handler does besides returning: lines of the log and calls of the model.\<close>

datatype event =
    Log_info string
  | Log_error string
  | Model_encode encode_call

fun model_calls :: "event list \<Rightarrow> encode_call list" where
  "model_calls [] = []"
| "model_calls (Model_encode c # es) = c # model_calls es"
| "model_calls (_ # es) = model_calls es"

text \<open>\<open>jsonify({"error": msg}), code\<close>.\<close>

definition error_response :: "nat \<Rightarrow> string \<Rightarrow> response" where
  "error_response code msg = \<lparr>status = code, body = JObj [(''error'', JStr msg)]\<rparr>"

text \<open>\<open>.tolist()\<close> of one row, and of all rows.\<close>

definition row_tolist :: "pyfloat list \<Rightarrow> json" where
  "row_tolist v = JArr (map JFloat v)"

definition tolist :: "pyfloat list list \<Rightarrow> json" where
  "tolist vecs = JArr (map row_tolist vecs)"

text \<open>\<open>int(os.environ.get("MAX_BATCH_SIZE", 32))\<close>.\<close>

definition max_batch_size :: "environ \<Rightarrow> py_error + int" where
  "max_batch_size env =
     (case env ''MAX_BATCH_SIZE'' of None \<Rightarrow> Inr 32 | Some s \<Rightarrow> py_int s)"

subsection \<open>The handler of \<open>/embed\<close>\<close>

text \<open>
  The body of the \<open>try\<close> block: the events so far, and the response it returns
  (\<open>Inr\<close>) or the exception it raises (\<open>Inl\<close>).
\<close>

definition embed_try :: "environ \<Rightarrow> model \<Rightarrow> request \<Rightarrow> event list \<times> (py_error + response)" where
  "embed_try env encode req =
     (case get_json req of
        Inl e \<Rightarrow> ([], Inl e)
      | Inr data \<Rightarrow>
          if \<not> truthy data then ([], Inr (error_response 400 ''Missing 'texts' field''))
          else (case py_in ''texts'' data of
            Inl e \<Rightarrow> ([], Inl e)
          | Inr False \<Rightarrow> ([], Inr (error_response 400 ''Missing 'texts' field''))
          | Inr True \<Rightarrow>
              (case py_getitem data ''texts'' of
                 Inl e \<Rightarrow> ([], Inl e)
               | Inr (JArr ts) \<Rightarrow>
                   if length ts = 0
                   then ([], Inr \<lparr>status = 200, body = JObj [(''embeddings'', JArr [])]\<rparr>)
                   else (case max_batch_size env of
                     Inl e \<Rightarrow> ([], Inl e)
                   | Inr max_batch \<Rightarrow>
                       if int (length ts) > max_batch
                       then ([], Inr (error_response 400
                              (''Batch size '' @ str_nat (length ts)
                               @ '' exceeds maximum '' @ str_int max_batch)))
                       else
                         (let log = Log_info (''Generating embeddings for ''
                                     @ str_nat (length ts) @ '' texts'');
                              call = \<lparr>texts = ts,
                                      batch_size = Some (min (length ts) 8),
                                      max_length = 512\<rparr>
                          in case encode call of
                               Inl e \<Rightarrow> ([log, Model_encode call], Inl e)
                             | Inr vecs \<Rightarrow>
                                 ([log, Model_encode call],
                                  Inr \<lparr>status = 200,
                                       body = JObj [(''embeddings'', tolist vecs)]\<rparr>)))
               | Inr _ \<Rightarrow> ([], Inr (error_response 400 '''texts' must be a list'')))))"

text \<open>The handler: the \<open>try\<close> block under \<open>except Exception as e\<close>.\<close>

definition embed :: "environ \<Rightarrow> model \<Rightarrow> request \<Rightarrow> response \<times> event list" where
  "embed env encode req =
     (case embed_try env encode req of
        (evs, Inr r) \<Rightarrow> (r, evs)
      | (evs, Inl e) \<Rightarrow>
          (error_response 500 (str_exc e),
           evs @ [Log_error (''Error generating embeddings: '' @ str_exc e)]))"

subsection \<open>The handler of \<open>/embed/single\<close>\<close>

text \<open>
  \<open>result["dense_vecs"][0]\<close> raises \<open>IndexError\<close> on an array of no rows. The handler
  does not read the environment.
\<close>

definition embed_single_try :: "model \<Rightarrow> request \<Rightarrow> event list \<times> (py_error + response)" where
  "embed_single_try encode req =
     (case get_json req of
        Inl e \<Rightarrow> ([], Inl e)
      | Inr data \<Rightarrow>
          if \<not> truthy data then ([], Inr (error_response 400 ''Missing 'text' field''))
          else (case py_in ''text'' data of
            Inl e \<Rightarrow> ([], Inl e)
          | Inr False \<Rightarrow> ([], Inr (error_response 400 ''Missing 'text' field''))
          | Inr True \<Rightarrow>
              (case py_getitem data ''text'' of
                 Inl e \<Rightarrow> ([], Inl e)
               | Inr (JStr text) \<Rightarrow>
                   (let call = \<lparr>texts = [JStr text], batch_size = None, max_length = 512\<rparr>
                    in case encode call of
                         Inl e \<Rightarrow> ([Model_encode call], Inl e)
                       | Inr [] \<Rightarrow>
                           ([Model_encode call],
                            Inl (IndexError
                              ''index 0 is out of bounds for axis 0 with size 0''))
                       | Inr (v # _) \<Rightarrow>
                           ([Model_encode call],
                            Inr \<lparr>status = 200,
                                 body = JObj [(''embedding'', row_tolist v)]\<rparr>))
               | Inr _ \<Rightarrow> ([], Inr (error_response 400 '''text' must be a string'')))))"

definition embed_single :: "model \<Rightarrow> request \<Rightarrow> response \<times> event list" where
  "embed_single encode req =
     (case embed_single_try encode req of
        (evs, Inr r) \<Rightarrow> (r, evs)
      | (evs, Inl e) \<Rightarrow>
          (error_response 500 (str_exc e),
           evs @ [Log_error (''Error generating embedding: '' @ str_exc e)]))"

subsection \<open>The routes\<close>

text \<open>
  \<open>app.run\<close> answers one request after the other, each by the handler of its route. The
  environment is state of the process, so every request comes with the environment of the
  moment it is handled.
\<close>

datatype route = Health | Embed | Embed_single

definition health :: "response \<times> event list" where
  "health = (\<lparr>status = 200, body = JObj [(''status'', JStr ''ok'')]\<rparr>, [])"

fun dispatch :: "model \<Rightarrow> environ \<times> route \<times> request \<Rightarrow> response \<times> event list" where
  "dispatch encode (env, Health, req) = health"
| "dispatch encode (env, Embed, req) = embed env encode req"
| "dispatch encode (env, Embed_single, req) = embed_single encode req"

definition serve :: "model \<Rightarrow> (environ \<times> route \<times> request) list \<Rightarrow> (response \<times> event list) list" where
  "serve encode reqs = map (dispatch encode) reqs"

section \<open>The builtin \<open>int\<close>\<close>

lemma in_dropWhile: "c \<in> set s \<Longrightarrow> \<not> P c \<Longrightarrow> c \<in> set (dropWhile P s)"
  by (induction s) auto

lemma in_int_strip: "c \<in> set s \<Longrightarrow> \<not> int_space c \<Longrightarrow> c \<in> set (int_strip s)"
  unfolding int_strip_def by (simp add: in_dropWhile)

lemma dropWhile_nonempty: "c \<in> set u \<Longrightarrow> \<not> P c \<Longrightarrow> dropWhile P u \<noteq> []"
  using in_dropWhile [of c u P] by auto

lemma py_int_rest:
  assumes "dropWhile (\<lambda>c. isdigit c \<or> c = CHR ''_'')
             (snd (case int_strip s of
                     c # r \<Rightarrow> if c = CHR ''+'' then (1::int, r)
                              else if c = CHR ''-'' then (- 1, r)
                              else (1, int_strip s)
                   | [] \<Rightarrow> (1, int_strip s))) \<noteq> []"
  shows "\<exists>m. py_int s = Inl (ValueError m)"
  using assms
  by (auto simp: py_int_def Let_def invalid_literal_def split: prod.splits list.splits if_splits)

text \<open>
  A string with a character that is neither a digit, an underscore, a sign nor white
  space of \<open>int\<close> is refused.
\<close>

lemma py_int_rejects:
  assumes "c \<in> set s" and "\<not> isdigit c" and "c \<noteq> CHR ''_''"
    and "c \<noteq> CHR ''+''" and "c \<noteq> CHR ''-''" and "\<not> int_space c"
  shows "\<exists>m. py_int s = Inl (ValueError m)"
proof (rule py_int_rest)
  let ?t = "int_strip s"
  let ?u = "snd (case ?t of
                   c # r \<Rightarrow> if c = CHR ''+'' then (1::int, r)
                            else if c = CHR ''-'' then (- 1, r)
                            else (1, ?t)
                 | [] \<Rightarrow> (1, ?t))"
  have "c \<in> set ?t" using assms(1,6) by (rule in_int_strip)
  then have "c \<in> set ?u"
    using assms(4,5) by (cases ?t) auto
  then show "dropWhile (\<lambda>c. isdigit c \<or> c = CHR ''_'') ?u \<noteq> []"
    using assms(2,3) by (intro dropWhile_nonempty [of c]) auto
qed

text \<open>The separators 28 to 31 are such characters; the spaces 133 and 160 are skipped.\<close>

lemma py_int_separators:
  "py_int [CHR 0x1C, CHR ''3'', CHR ''2''] = Inl (invalid_literal [CHR 0x1C, CHR ''3'', CHR ''2''])"
  "py_int [CHR ''5'', CHR 0x1F] = Inl (invalid_literal [CHR ''5'', CHR 0x1F])"
  "py_int [CHR 0xA0, CHR ''5'', CHR 0x85] = Inr 5"
  by code_simp+

text \<open>\<open>int(str(n)) = n\<close>, up to the limit on the number of digits.\<close>

lemma isdigit_not_other:
  assumes "isdigit c"
  shows "\<not> int_space c" and "c \<noteq> CHR ''_''" and "c \<noteq> CHR ''+''" and "c \<noteq> CHR ''-''"
  using assms by (auto simp: isdigit_def int_space_def Let_def)

lemma no_double_underscore: "CHR ''_'' \<notin> set s \<Longrightarrow> \<not> double_underscore s"
  by (induction s rule: double_underscore.induct) auto

lemma py_int_digits:
  assumes "ds \<noteq> []" and "\<forall>c \<in> set ds. isdigit c" and "length ds \<le> 4300"
  shows "py_int ds = Inr (digits_value ds)"
proof -
  from assms(1) obtain d r where ds: "ds = d # r" by (cases ds) auto
  have dig: "isdigit c" if "c \<in> set ds" for c
    using that assms(2) by simp
  have "hd ds \<in> set ds" and "last ds \<in> set ds" using assms(1) by simp_all
  then have "isdigit (hd ds)" and "isdigit (last ds)" by (simp_all add: dig)
  then have ends: "\<not> int_space (hd ds)" "\<not> int_space (last ds)"
      "hd ds \<noteq> CHR ''_''" "last ds \<noteq> CHR ''_''"
    by (simp_all add: isdigit_not_other)
  have front: "dropWhile int_space ds = ds"
    using ends(1) assms(1) by (cases ds) simp_all
  have "dropWhile int_space (rev ds) = rev ds"
    using ends(2) assms(1) by (cases "rev ds") (simp_all add: last_rev [symmetric] del: last_rev)
  with front have strip: "int_strip ds = ds"
    by (simp add: int_strip_def)
  have "isdigit d" using dig [of d] ds by simp
  then have d: "d \<noteq> CHR ''+''" "d \<noteq> CHR ''-''"
    by (simp_all add: isdigit_not_other)
  have run: "takeWhile (\<lambda>c. isdigit c \<or> c = CHR ''_'') ds = ds"
    using dig by (simp add: takeWhile_eq_all_conv)
  have rest: "dropWhile (\<lambda>c. isdigit c \<or> c = CHR ''_'') ds = []"
    using dig by simp
  have filt: "filter isdigit ds = ds"
    using dig by (simp add: filter_id_conv)
  have "CHR ''_'' \<notin> set ds"
    using dig isdigit_not_other(2) by blast
  then have nodbl: "\<not> double_underscore ds"
    by (rule no_double_underscore)
  have su: "(case ds of
               c # r \<Rightarrow> if c = CHR ''+'' then (1, r)
                        else if c = CHR ''-'' then (- 1, r)
                        else (1, ds)
             | [] \<Rightarrow> (1, ds)) = (1 :: int, ds)"
    using d by (simp add: ds)
  show ?thesis
    using assms(1,3) ends(3,4) nodbl
    by (simp add: py_int_def strip su run rest filt Let_def)
qed


lemma of_char_digit_char: "d < 10 \<Longrightarrow> of_char (digit_char d) = 48 + d"
  by (simp add: digit_char_def)

lemma isdigit_digit_char: "d < 10 \<Longrightarrow> isdigit (digit_char d)"
  by (simp add: isdigit_def of_char_digit_char)

lemma str_nat_digits: "\<forall>c \<in> set (str_nat n). isdigit c"
proof (induction n rule: str_nat.induct)
  case (1 n)
  show ?case
  proof (cases "n < 10")
    case True
    then show ?thesis
      by (subst str_nat.simps) (simp add: isdigit_digit_char)
  next
    case False
    with 1 have "\<forall>c \<in> set (str_nat (n div 10)). isdigit c" by simp
    with False show ?thesis
      by (subst str_nat.simps) (simp add: isdigit_digit_char)
  qed
qed

lemma str_nat_nonempty: "str_nat n \<noteq> []"
  by (subst str_nat.simps) simp

lemma digits_value_snoc:
  "digits_value (ds @ [c]) = 10 * digits_value ds + (int (of_char c) - 48)"
  by (simp add: digits_value_def)

lemma digits_value_str_nat: "digits_value (str_nat n) = int n"
proof (induction n rule: str_nat.induct)
  case (1 n)
  show ?case
  proof (cases "n < 10")
    case True
    then show ?thesis
      by (subst str_nat.simps) (simp add: digits_value_def of_char_digit_char)
  next
    case False
    with 1 have "digits_value (str_nat (n div 10)) = int (n div 10)" by simp
    with False show ?thesis
      by (subst str_nat.simps) (simp add: digits_value_snoc of_char_digit_char zdiv_int zmod_int)
  qed
qed

lemma py_int_str_nat:
  "length (str_nat n) \<le> 4300 \<Longrightarrow> py_int (str_nat n) = Inr (int n)"
  using py_int_digits [OF str_nat_nonempty str_nat_digits, of n]
  by (simp add: digits_value_str_nat)

section \<open>Paths through the handlers\<close>

lemma dict_with_key_truthy: "map_of kvs k = Some v \<Longrightarrow> truthy (JObj kvs)"
  by (cases kvs) simp_all

lemma embed_try_get_json_raises:
  "get_json req = Inl e \<Longrightarrow> embed_try env encode req = ([], Inl e)"
  by (simp add: embed_try_def)

lemma embed_try_missing:
  assumes "get_json req = Inr data" and "\<not> truthy data \<or> py_in ''texts'' data = Inr False"
  shows "embed_try env encode req = ([], Inr (error_response 400 ''Missing 'texts' field''))"
  using assms by (auto simp: embed_try_def)

lemma embed_try_not_list:
  assumes "get_json req = Inr (JObj kvs)" and "map_of kvs ''texts'' = Some v"
    and "\<not> isinstance_list v"
  shows "embed_try env encode req = ([], Inr (error_response 400 '''texts' must be a list''))"
  using assms dict_with_key_truthy [OF assms(2)]
  by (cases v) (simp_all add: embed_try_def)

lemma embed_try_empty:
  assumes "get_json req = Inr (JObj kvs)" and "map_of kvs ''texts'' = Some (JArr [])"
  shows "embed_try env encode req =
    ([], Inr \<lparr>status = 200, body = JObj [(''embeddings'', JArr [])]\<rparr>)"
  using assms dict_with_key_truthy [OF assms(2)]
  by (simp add: embed_try_def)

lemma embed_try_limit_raises:
  assumes "get_json req = Inr (JObj kvs)" and "map_of kvs ''texts'' = Some (JArr ts)"
    and "ts \<noteq> []" and "max_batch_size env = Inl e"
  shows "embed_try env encode req = ([], Inl e)"
  using assms dict_with_key_truthy [OF assms(2)]
  by (simp add: embed_try_def)

lemma embed_try_too_large:
  assumes "get_json req = Inr (JObj kvs)" and "map_of kvs ''texts'' = Some (JArr ts)"
    and "ts \<noteq> []" and "max_batch_size env = Inr m" and "int (length ts) > m"
  shows "embed_try env encode req =
    ([], Inr (error_response 400
       (''Batch size '' @ str_nat (length ts) @ '' exceeds maximum '' @ str_int m)))"
  using assms dict_with_key_truthy [OF assms(2)]
  by (simp add: embed_try_def)

lemma embed_try_encode:
  assumes "get_json req = Inr (JObj kvs)" and "map_of kvs ''texts'' = Some (JArr ts)"
    and "ts \<noteq> []" and "max_batch_size env = Inr m" and "int (length ts) \<le> m"
  shows "embed_try env encode req =
    ([Log_info (''Generating embeddings for '' @ str_nat (length ts) @ '' texts''),
      Model_encode \<lparr>texts = ts, batch_size = Some (min (length ts) 8), max_length = 512\<rparr>],
     case encode \<lparr>texts = ts, batch_size = Some (min (length ts) 8), max_length = 512\<rparr> of
       Inl e \<Rightarrow> Inl e
     | Inr vecs \<Rightarrow> Inr \<lparr>status = 200, body = JObj [(''embeddings'', tolist vecs)]\<rparr>)"
  using assms dict_with_key_truthy [OF assms(2)]
  by (simp add: embed_try_def Let_def split: sum.splits)

lemma embed_single_try_get_json_raises:
  "get_json req = Inl e \<Longrightarrow> embed_single_try encode req = ([], Inl e)"
  by (simp add: embed_single_try_def)

lemma embed_single_try_not_str:
  assumes "get_json req = Inr (JObj kvs)" and "map_of kvs ''text'' = Some v"
    and "\<not> isinstance_str v"
  shows "embed_single_try encode req =
    ([], Inr (error_response 400 '''text' must be a string''))"
  using assms dict_with_key_truthy [OF assms(2)]
  by (cases v) (simp_all add: embed_single_try_def)

lemma embed_single_try_encode:
  assumes "get_json req = Inr (JObj kvs)" and "map_of kvs ''text'' = Some (JStr s)"
  shows "embed_single_try encode req =
    ([Model_encode \<lparr>texts = [JStr s], batch_size = None, max_length = 512\<rparr>],
     case encode \<lparr>texts = [JStr s], batch_size = None, max_length = 512\<rparr> of
       Inl e \<Rightarrow> Inl e
     | Inr [] \<Rightarrow> Inl (IndexError ''index 0 is out of bounds for axis 0 with size 0'')
     | Inr (v # vs) \<Rightarrow> Inr \<lparr>status = 200, body = JObj [(''embedding'', row_tolist v)]\<rparr>)"
  using assms dict_with_key_truthy [OF assms(2)]
  by (simp add: embed_single_try_def Let_def split: sum.splits list.splits)

lemma embed_returned:
  "embed_try env encode req = (evs, Inr r) \<Longrightarrow> embed env encode req = (r, evs)"
  by (simp add: embed_def)

lemma embed_raised:
  "embed_try env encode req = (evs, Inl e) \<Longrightarrow>
   embed env encode req =
     (error_response 500 (str_exc e),
      evs @ [Log_error (''Error generating embeddings: '' @ str_exc e)])"
  by (simp add: embed_def)

lemma embed_single_returned:
  "embed_single_try encode req = (evs, Inr r) \<Longrightarrow> embed_single encode req = (r, evs)"
  by (simp add: embed_single_def)

lemma embed_single_raised:
  "embed_single_try encode req = (evs, Inl e) \<Longrightarrow>
   embed_single encode req =
     (error_response 500 (str_exc e),
      evs @ [Log_error (''Error generating embedding: '' @ str_exc e)])"
  by (simp add: embed_single_def)

section \<open>Properties of the handlers\<close>

text \<open>
  C4. A request to \<open>/embed\<close> whose \<open>texts\<close> is the empty list is answered with status
  200 and \<open>{"embeddings": []}\<close> at once: no call of the model, no line of the log, and
  whatever the environment holds, since \<open>MAX_BATCH_SIZE\<close> is only read after this
  return.
\<close>

theorem embed_empty_list:
  assumes "get_json req = Inr (JObj kvs)" and "map_of kvs ''texts'' = Some (JArr [])"
  shows "embed env encode req =
           (\<lparr>status = 200, body = JObj [(''embeddings'', JArr [])]\<rparr>, [])
         \<and> model_calls (snd (embed env encode req)) = []"
  using embed_returned [OF embed_try_empty [OF assms]] by simp

text \<open>
  The same at an environment whose \<open>MAX_BATCH_SIZE\<close> does not parse, with a model that
  would raise.
\<close>

theorem embed_empty_list_witness:
  "max_batch_size [''MAX_BATCH_SIZE'' \<mapsto> ''many''] = Inl (invalid_literal ''many'')
   \<and> embed [''MAX_BATCH_SIZE'' \<mapsto> ''many''] (\<lambda>call. Inl (Raised ''out of memory''))
         (Request (Inr (JObj [(''texts'', JArr [])])))
       = (\<lparr>status = 200, body = JObj [(''embeddings'', JArr [])]\<rparr>, [])"
proof -
  have limit: "max_batch_size [''MAX_BATCH_SIZE'' \<mapsto> ''many''] = Inl (invalid_literal ''many'')"
    by code_simp
  have "get_json (Request (Inr (JObj [(''texts'', JArr [])]))) = Inr (JObj [(''texts'', JArr [])])"
    and "map_of [(''texts'', JArr [])] ''texts'' = Some (JArr [])"
    by simp_all
  from embed_empty_list [OF this] limit show ?thesis by simp
qed

text \<open>
  C1. A request to \<open>/embed\<close> whose body is an object with \<open>texts\<close> a non-empty list
  of strings, no longer than the maximum the environment configures, is answered with
  status 200 and an \<open>embeddings\<close> sequence of the length of the input whose position
  \<open>i\<close> is row \<open>i\<close> of what the model returned, provided the model returns one row
  for each text.
\<close>

theorem embed_one_vector_per_text:
  assumes "get_json req = Inr (JObj kvs)"
    and "map_of kvs ''texts'' = Some (JArr (map JStr ss))"
    and "ss \<noteq> []"
    and "max_batch_size env = Inr m" and "int (length ss) \<le> m"
    and "encode \<lparr>texts = map JStr ss, batch_size = Some (min (length ss) 8),
                 max_length = 512\<rparr> = Inr vecs"
    and "length vecs = length ss"
  shows "fst (embed env encode req) =
           \<lparr>status = 200, body = JObj [(''embeddings'', JArr (map row_tolist vecs))]\<rparr>
         \<and> length (map row_tolist vecs) = length ss
         \<and> (\<forall>i < length ss. map row_tolist vecs ! i = row_tolist (vecs ! i))"
proof -
  have "embed_try env encode req =
    ([Log_info (''Generating embeddings for '' @ str_nat (length (map JStr ss)) @ '' texts''),
      Model_encode \<lparr>texts = map JStr ss, batch_size = Some (min (length (map JStr ss)) 8),
                    max_length = 512\<rparr>],
     Inr \<lparr>status = 200, body = JObj [(''embeddings'', tolist vecs)]\<rparr>)"
    using embed_try_encode [OF assms(1,2), of env m encode] assms(3-6) by simp
  from embed_returned [OF this] assms(7) show ?thesis
    by (simp add: tolist_def)
qed

text \<open>Two texts under the default maximum of 32; the rows are \<open>[1.0, 0.0]\<close> and \<open>[0.0, 2.0]\<close>.\<close>

theorem embed_one_vector_per_text_witness:
  "max_batch_size Map.empty = Inr 32
   \<and> fst (embed Map.empty
         (\<lambda>call. Inr [[0x3FF0000000000000, 0], [0, 0x4000000000000000]])
         (Request (Inr (JObj [(''texts'', JArr [JStr ''hello'', JStr ''world''])]))))
       = \<lparr>status = 200,
          body = JObj [(''embeddings'',
                        JArr [JArr [JFloat 0x3FF0000000000000, JFloat 0],
                              JArr [JFloat 0, JFloat 0x4000000000000000]])]\<rparr>"
proof -
  have limit: "max_batch_size Map.empty = Inr 32"
    by (simp add: max_batch_size_def)
  have "fst (embed Map.empty
         (\<lambda>call. Inr [[0x3FF0000000000000, 0], [0, 0x4000000000000000]])
         (Request (Inr (JObj [(''texts'', JArr [JStr ''hello'', JStr ''world''])]))))
       = \<lparr>status = 200,
          body = JObj [(''embeddings'',
                 JArr (map row_tolist [[0x3FF0000000000000, 0], [0, 0x4000000000000000]]))]\<rparr>"
    using embed_one_vector_per_text
      [of "Request (Inr (JObj [(''texts'', JArr [JStr ''hello'', JStr ''world''])]))"
          "[(''texts'', JArr [JStr ''hello'', JStr ''world''])]"
          "[''hello'', ''world'']" Map.empty 32
          "\<lambda>call. Inr [[0x3FF0000000000000, 0], [0, 0x4000000000000000]]"
          "[[0x3FF0000000000000, 0], [0, 0x4000000000000000]]"]
      limit
    by simp
  with limit show ?thesis by (simp add: row_tolist_def)
qed

text \<open>
  C5. A field that is there with the wrong type is refused with status 400 by both
  handlers: \<open>/embed\<close> when \<open>texts\<close> is not a list, \<open>/embed/single\<close> when \<open>text\<close> is
  not a string. Neither calls the model.
\<close>

theorem embed_wrong_type:
  assumes "get_json req = Inr (JObj kvs)"
  shows "(map_of kvs ''texts'' = Some v \<and> \<not> isinstance_list v \<longrightarrow>
            embed env encode req = (error_response 400 '''texts' must be a list'', []))
         \<and> (map_of kvs ''text'' = Some w \<and> \<not> isinstance_str w \<longrightarrow>
            embed_single encode req = (error_response 400 '''text' must be a string'', []))"
proof (intro conjI impI)
  assume "map_of kvs ''texts'' = Some v \<and> \<not> isinstance_list v"
  then have "embed_try env encode req =
      ([], Inr (error_response 400 '''texts' must be a list''))"
    using embed_try_not_list [OF assms] by blast
  then show "embed env encode req = (error_response 400 '''texts' must be a list'', [])"
    by (rule embed_returned)
next
  assume "map_of kvs ''text'' = Some w \<and> \<not> isinstance_str w"
  then have "embed_single_try encode req =
      ([], Inr (error_response 400 '''text' must be a string''))"
    using embed_single_try_not_str [OF assms] by blast
  then show "embed_single encode req = (error_response 400 '''text' must be a string'', [])"
    by (rule embed_single_returned)
qed

text \<open>The bodies \<open>{"texts": "not a list"}\<close> and \<open>{"text": 123}\<close>.\<close>

theorem embed_wrong_type_witness:
  "embed Map.empty (\<lambda>call. Inr []) (Request (Inr (JObj [(''texts'', JStr ''not a list'')])))
     = (\<lparr>status = 400, body = JObj [(''error'', JStr '''texts' must be a list'')]\<rparr>, [])
   \<and> embed_single (\<lambda>call. Inr []) (Request (Inr (JObj [(''text'', JInt 123)])))
     = (\<lparr>status = 400, body = JObj [(''error'', JStr '''text' must be a string'')]\<rparr>, [])"
  using
    embed_wrong_type [of "Request (Inr (JObj [(''texts'', JStr ''not a list'')]))"
      "[(''texts'', JStr ''not a list'')]" "JStr ''not a list''" Map.empty "\<lambda>call. Inr []" JNull]
    embed_wrong_type [of "Request (Inr (JObj [(''text'', JInt 123)]))"
      "[(''text'', JInt 123)]" JNull Map.empty "\<lambda>call. Inr []" "JInt 123"]
  by (simp add: error_response_def)

text \<open>
  C8. A request to \<open>/embed/single\<close> whose \<open>text\<close> is a string makes one call of the
  model, on the list of that one string, with \<open>max_length\<close> 512 and no \<open>batch_size\<close>.
  When the model returns, the answer is status 200 with \<open>embedding\<close> the first row
  itself, a flat list of numbers and not a list of rows. The route does not look at the
  environment, so no maximum applies.
\<close>

theorem embed_single_returns_the_vector:
  assumes "get_json req = Inr (JObj kvs)" and "map_of kvs ''text'' = Some (JStr s)"
    and "encode \<lparr>texts = [JStr s], batch_size = None, max_length = 512\<rparr> = Inr (v # vs)"
  shows "dispatch encode (env, Embed_single, req) =
           (\<lparr>status = 200, body = JObj [(''embedding'', JArr (map JFloat v))]\<rparr>,
            [Model_encode \<lparr>texts = [JStr s], batch_size = None, max_length = 512\<rparr>])"
proof -
  have "embed_single_try encode req =
      ([Model_encode \<lparr>texts = [JStr s], batch_size = None, max_length = 512\<rparr>],
       Inr \<lparr>status = 200, body = JObj [(''embedding'', row_tolist v)]\<rparr>)"
    using embed_single_try_encode [OF assms(1,2), of encode] assms(3) by simp
  from embed_single_returned [OF this] show ?thesis
    by (simp add: row_tolist_def)
qed

text \<open>The body \<open>{"text": "hello"}\<close>, under an environment whose maximum is 0.\<close>

theorem embed_single_returns_the_vector_witness:
  "max_batch_size [''MAX_BATCH_SIZE'' \<mapsto> ''0''] = Inr 0
   \<and> dispatch (\<lambda>call. Inr (map (\<lambda>t. [0x3FF0000000000000, 0]) (texts call)))
        ([''MAX_BATCH_SIZE'' \<mapsto> ''0''], Embed_single,
         Request (Inr (JObj [(''text'', JStr ''hello'')])))
     = (\<lparr>status = 200,
         body = JObj [(''embedding'', JArr [JFloat 0x3FF0000000000000, JFloat 0])]\<rparr>,
        [Model_encode \<lparr>texts = [JStr ''hello''], batch_size = None, max_length = 512\<rparr>])"
proof -
  have limit: "max_batch_size [''MAX_BATCH_SIZE'' \<mapsto> ''0''] = Inr 0"
    by code_simp
  show ?thesis
    using limit
      embed_single_returns_the_vector
        [of "Request (Inr (JObj [(''text'', JStr ''hello'')]))" "[(''text'', JStr ''hello'')]"
            "''hello''" "\<lambda>call. Inr (map (\<lambda>t. [0x3FF0000000000000, 0]) (texts call))"
            "[0x3FF0000000000000, 0]" "[]" "[''MAX_BATCH_SIZE'' \<mapsto> ''0'']"]
    by simp
qed

text \<open>
  C7. When \<open>/embed\<close> gets as far as the model, with a non-empty list of \<open>n\<close> texts within
  the maximum, it makes exactly one call: the whole list as it came, \<open>batch_size\<close> the
  smaller of \<open>n\<close> and 8, \<open>max_length\<close> 512. The handler has no check on the length of
  a text, so what the texts hold does not decide whether the call is made, and the answer
  is never a 400; cutting a text at 512 tokens is left to the model.
\<close>

theorem embed_calls_model_once:
  assumes "get_json req = Inr (JObj kvs)" and "map_of kvs ''texts'' = Some (JArr ts)"
    and "ts \<noteq> []" and "max_batch_size env = Inr m" and "int (length ts) \<le> m"
  shows "model_calls (snd (embed env encode req)) =
           [\<lparr>texts = ts, batch_size = Some (min (length ts) 8), max_length = 512\<rparr>]
         \<and> status (fst (embed env encode req)) \<noteq> 400"
proof (cases "encode \<lparr>texts = ts, batch_size = Some (min (length ts) 8), max_length = 512\<rparr>")
  case (Inl e)
  with embed_try_encode [OF assms, of encode] show ?thesis
    by (simp add: embed_def error_response_def)
next
  case (Inr vecs)
  with embed_try_encode [OF assms, of encode] show ?thesis
    by (simp add: embed_def)
qed

text \<open>Nine texts under the default maximum: \<open>batch_size\<close> is 8.\<close>

theorem embed_calls_model_once_witness:
  "max_batch_size Map.empty = Inr 32
   \<and> model_calls (snd (embed Map.empty (\<lambda>call. Inr (map (\<lambda>t. [0]) (texts call)))
        (Request (Inr (JObj [(''texts'', JArr (replicate 9 (JStr ''some text'')))])))))
     = [\<lparr>texts = replicate 9 (JStr ''some text''), batch_size = Some 8, max_length = 512\<rparr>]"
proof -
  have limit: "max_batch_size Map.empty = Inr 32"
    by (simp add: max_batch_size_def)
  show ?thesis
    using limit
      embed_calls_model_once
        [of "Request (Inr (JObj [(''texts'', JArr (replicate 9 (JStr ''some text'')))]))"
            "[(''texts'', JArr (replicate 9 (JStr ''some text'')))]"
            "replicate 9 (JStr ''some text'')" Map.empty 32
            "\<lambda>call. Inr (map (\<lambda>t. [0]) (texts call))"]
    by simp
qed

text \<open>
  Where \<open>/embed\<close> does answer that the field is missing: when \<open>get_json\<close> returns
  a body that is false as a truth value (\<open>null\<close>, \<open>false\<close>, zero, an empty string,
  list or object), or an object, list or string that does not hold \<open>"texts"\<close>. The
  answer is status 400 with the message \<open>Missing 'texts' field\<close>, and the model is not
  called.
\<close>

lemma embed_missing_texts:
  assumes "get_json req = Inr data"
    and "\<not> truthy data \<or> py_in ''texts'' data = Inr False"
  shows "embed env encode req = (error_response 400 ''Missing 'texts' field'', [])"
  using embed_try_missing [OF assms] by (rule embed_returned)

text \<open>
  C2. A body that does not parse, or that parses to JSON without a \<open>texts\<close> field, is
  to be answered with status 400 and a missing-field message. The handler misses that at
  two bodies. The body \<open>5\<close> is JSON without a \<open>texts\<close> field: \<open>not data\<close> is
  false, \<open>"texts" not in data\<close> raises \<open>TypeError\<close>, and the answer is status 500,
  while the same check answers 400 for the bodies \<open>0\<close> and \<open>{}\<close>. On a body that
  does not parse, \<open>get_json\<close> raises \<open>BadRequest\<close> inside the \<open>try\<close> block, and
  the answer is status 500 with the text of that client error as its message.
\<close>

theorem embed_bad_body_answers_500:
  "embed Map.empty (\<lambda>call. Inr []) (Request (Inr (JInt 5)))
     = (\<lparr>status = 500,
         body = JObj [(''error'', JStr ''argument of type 'int' is not iterable'')]\<rparr>,
        [Log_error
          ''Error generating embeddings: argument of type 'int' is not iterable''])
   \<and> embed Map.empty (\<lambda>call. Inr [])
        (Request (Inl (Raised (''400 Bad Request: The browser (or proxy) sent a request ''
                               @ ''that this server could not understand.''))))
     = (\<lparr>status = 500,
         body = JObj [(''error'',
                  JStr (''400 Bad Request: The browser (or proxy) sent a request ''
                        @ ''that this server could not understand.''))]\<rparr>,
        [Log_error
          (''Error generating embeddings: ''
           @ ''400 Bad Request: The browser (or proxy) sent a request ''
           @ ''that this server could not understand.'')])
   \<and> embed Map.empty (\<lambda>call. Inr []) (Request (Inr (JInt 0)))
     = (\<lparr>status = 400, body = JObj [(''error'', JStr ''Missing 'texts' field'')]\<rparr>, [])
   \<and> embed Map.empty (\<lambda>call. Inr []) (Request (Inr (JObj [])))
     = (\<lparr>status = 400, body = JObj [(''error'', JStr ''Missing 'texts' field'')]\<rparr>, [])"
  by (simp add: embed_def embed_try_def error_response_def not_iterable_def py_repr_def
      repr_char_def isprintable_def Let_def)

text \<open>
  C3. A request to \<open>/embed\<close> whose \<open>texts\<close> is a non-empty list longer than the
  maximum is answered with status 400 and the message
  \<open>Batch size <length> exceeds maximum <maximum>\<close>, both numbers in decimal, and the
  model is not called. The maximum is 32 when \<open>MAX_BATCH_SIZE\<close> is not set, and
  \<open>int\<close> of its value when it is.
\<close>

theorem embed_batch_too_large:
  assumes "get_json req = Inr (JObj kvs)" and "map_of kvs ''texts'' = Some (JArr ts)"
    and "ts \<noteq> []" and "max_batch_size env = Inr m" and "int (length ts) > m"
  shows "embed env encode req =
           (\<lparr>status = 400,
             body = JObj [(''error'', JStr (''Batch size '' @ str_nat (length ts)
                                            @ '' exceeds maximum '' @ str_int m))]\<rparr>, [])
         \<and> model_calls (snd (embed env encode req)) = []
         \<and> (env ''MAX_BATCH_SIZE'' = None \<longrightarrow> m = 32)
         \<and> (\<forall>s. env ''MAX_BATCH_SIZE'' = Some s \<longrightarrow> py_int s = Inr m)"
proof -
  have "embed env encode req =
      (error_response 400
         (''Batch size '' @ str_nat (length ts) @ '' exceeds maximum '' @ str_int m), [])"
    using embed_try_too_large [OF assms] by (rule embed_returned)
  moreover have "env ''MAX_BATCH_SIZE'' = None \<longrightarrow> m = 32"
    using assms(4) by (auto simp: max_batch_size_def)
  moreover have "\<forall>s. env ''MAX_BATCH_SIZE'' = Some s \<longrightarrow> py_int s = Inr m"
    using assms(4) by (auto simp: max_batch_size_def)
  ultimately show ?thesis by (simp add: error_response_def)
qed

text \<open>33 texts under the default maximum, and 3 texts under \<open>MAX_BATCH_SIZE=2\<close>.\<close>

theorem embed_batch_too_large_witness:
  "embed Map.empty (\<lambda>call. Inr [])
      (Request (Inr (JObj [(''texts'', JArr (replicate 33 (JStr ''a'')))])))
     = (\<lparr>status = 400,
         body = JObj [(''error'', JStr ''Batch size 33 exceeds maximum 32'')]\<rparr>, [])
   \<and> embed [''MAX_BATCH_SIZE'' \<mapsto> ''2''] (\<lambda>call. Inr [])
      (Request (Inr (JObj [(''texts'', JArr (replicate 3 (JStr ''b'')))])))
     = (\<lparr>status = 400,
         body = JObj [(''error'', JStr ''Batch size 3 exceeds maximum 2'')]\<rparr>, [])"
proof -
  have l32: "max_batch_size Map.empty = Inr 32"
    by (simp add: max_batch_size_def)
  have l2: "max_batch_size [''MAX_BATCH_SIZE'' \<mapsto> ''2''] = Inr 2"
    by code_simp
  have m33: "''Batch size '' @ str_nat (length (replicate 33 (JStr ''a'')))
               @ '' exceeds maximum '' @ str_int 32 = ''Batch size 33 exceeds maximum 32''"
    by code_simp
  have m3: "''Batch size '' @ str_nat (length (replicate 3 (JStr ''b'')))
               @ '' exceeds maximum '' @ str_int 2 = ''Batch size 3 exceeds maximum 2''"
    by code_simp
  have a: "embed Map.empty (\<lambda>call. Inr [])
      (Request (Inr (JObj [(''texts'', JArr (replicate 33 (JStr ''a'')))])))
     = (\<lparr>status = 400,
         body = JObj [(''error'', JStr ''Batch size 33 exceeds maximum 32'')]\<rparr>, [])"
    using embed_batch_too_large
        [of "Request (Inr (JObj [(''texts'', JArr (replicate 33 (JStr ''a'')))]))"
            "[(''texts'', JArr (replicate 33 (JStr ''a'')))]" "replicate 33 (JStr ''a'')"
            Map.empty 32 "\<lambda>call. Inr []", OF _ _ _ l32]
    unfolding m33 by simp
  have b: "embed [''MAX_BATCH_SIZE'' \<mapsto> ''2''] (\<lambda>call. Inr [])
      (Request (Inr (JObj [(''texts'', JArr (replicate 3 (JStr ''b'')))])))
     = (\<lparr>status = 400,
         body = JObj [(''error'', JStr ''Batch size 3 exceeds maximum 2'')]\<rparr>, [])"
    using embed_batch_too_large
        [of "Request (Inr (JObj [(''texts'', JArr (replicate 3 (JStr ''b'')))]))"
            "[(''texts'', JArr (replicate 3 (JStr ''b'')))]"
            "replicate 3 (JStr ''b'')"
            "[''MAX_BATCH_SIZE'' \<mapsto> ''2'']" 2 "\<lambda>call. Inr []", OF _ _ _ l2]
    unfolding m3 by simp
  from a b show ?thesis by (rule conjI)
qed

text \<open>
  Without "non-empty" the claim fails: under \<open>MAX_BATCH_SIZE=-1\<close> the empty list is
  longer than the maximum, and it is answered with status 200, since the return for the
  empty list comes before the maximum is read.
\<close>

theorem embed_batch_too_large_counterexample:
  "max_batch_size [''MAX_BATCH_SIZE'' \<mapsto> ''-1''] = Inr (- 1)
   \<and> int (length ([] :: json list)) > - 1
   \<and> embed [''MAX_BATCH_SIZE'' \<mapsto> ''-1''] (\<lambda>call. Inr [])
        (Request (Inr (JObj [(''texts'', JArr [])])))
     = (\<lparr>status = 200, body = JObj [(''embeddings'', JArr [])]\<rparr>, [])"
proof -
  have "max_batch_size [''MAX_BATCH_SIZE'' \<mapsto> ''-1''] = Inr (- 1)"
    by code_simp
  then show ?thesis
    by (simp add: embed_def embed_try_def)
qed

text \<open>
  C6. Whatever is raised inside the \<open>try\<close> block of \<open>embed\<close> or of \<open>embed_single\<close>,
  by \<open>get_json\<close>, by a check or by the model, the handler returns status 500 with the
  body \<open>{"error": str(e)}\<close> and logs the error: a handler returns a response on every
  request. So \<open>serve\<close> answers every request of a run, each with what its handler
  returns on it alone, whatever the requests before it did.
\<close>

theorem handlers_catch_exceptions:
  "(embed_try env encode req = (evs, Inl e) \<longrightarrow>
      embed env encode req =
        (\<lparr>status = 500, body = JObj [(''error'', JStr (str_exc e))]\<rparr>,
         evs @ [Log_error (''Error generating embeddings: '' @ str_exc e)]))
   \<and> (embed_single_try encode req = (evs', Inl e') \<longrightarrow>
      embed_single encode req =
        (\<lparr>status = 500, body = JObj [(''error'', JStr (str_exc e'))]\<rparr>,
         evs' @ [Log_error (''Error generating embedding: '' @ str_exc e')]))
   \<and> (get_json req = Inl e'' \<longrightarrow>
      fst (embed env encode req) = error_response 500 (str_exc e'')
      \<and> fst (embed_single encode req) = error_response 500 (str_exc e''))
   \<and> length (serve encode reqs) = length reqs
   \<and> (\<forall>i < length reqs. serve encode reqs ! i = dispatch encode (reqs ! i))"
proof (intro conjI impI allI)
  assume "embed_try env encode req = (evs, Inl e)"
  from embed_raised [OF this]
  show "embed env encode req =
        (\<lparr>status = 500, body = JObj [(''error'', JStr (str_exc e))]\<rparr>,
         evs @ [Log_error (''Error generating embeddings: '' @ str_exc e)])"
    by (simp add: error_response_def)
next
  assume "embed_single_try encode req = (evs', Inl e')"
  from embed_single_raised [OF this]
  show "embed_single encode req =
        (\<lparr>status = 500, body = JObj [(''error'', JStr (str_exc e'))]\<rparr>,
         evs' @ [Log_error (''Error generating embedding: '' @ str_exc e')])"
    by (simp add: error_response_def)
next
  assume "get_json req = Inl e''"
  from embed_raised [OF embed_try_get_json_raises [OF this]]
  show "fst (embed env encode req) = error_response 500 (str_exc e'')"
    by simp
next
  assume "get_json req = Inl e''"
  from embed_single_raised [OF embed_single_try_get_json_raises [OF this]]
  show "fst (embed_single encode req) = error_response 500 (str_exc e'')"
    by simp
next
  show "length (serve encode reqs) = length reqs"
    by (simp add: serve_def)
next
  fix i assume "i < length reqs"
  then show "serve encode reqs ! i = dispatch encode (reqs ! i)"
    by (simp add: serve_def)
qed

text \<open>
  A run of three requests with a model that always raises: \<open>/embed/single\<close> fails in
  the model, \<open>/embed\<close> fails in \<open>get_json\<close>, and \<open>/embed\<close> with an empty list is
  answered with 200 after them.
\<close>

theorem handlers_catch_exceptions_witness:
  "map fst (serve (\<lambda>call. Inl (Raised ''out of memory''))
     [(Map.empty, Embed_single, Request (Inr (JObj [(''text'', JStr ''hello'')]))),
      (Map.empty, Embed, Request (Inl (Raised ''400 Bad Request''))),
      (Map.empty, Embed, Request (Inr (JObj [(''texts'', JArr [])])))])
   = [\<lparr>status = 500, body = JObj [(''error'', JStr ''out of memory'')]\<rparr>,
      \<lparr>status = 500, body = JObj [(''error'', JStr ''400 Bad Request'')]\<rparr>,
      \<lparr>status = 200, body = JObj [(''embeddings'', JArr [])]\<rparr>]"
proof -
  have single: "embed_single_try (\<lambda>call. Inl (Raised ''out of memory''))
        (Request (Inr (JObj [(''text'', JStr ''hello'')])))
      = ([Model_encode \<lparr>texts = [JStr ''hello''], batch_size = None, max_length = 512\<rparr>],
         Inl (Raised ''out of memory''))"
    by (simp add: embed_single_try_def)
  have batch: "embed_try Map.empty (\<lambda>call. Inl (Raised ''out of memory''))
        (Request (Inl (Raised ''400 Bad Request'')))
      = ([], Inl (Raised ''400 Bad Request''))"
    by (simp add: embed_try_def)
  have empty: "fst (embed Map.empty (\<lambda>call. Inl (Raised ''out of memory''))
        (Request (Inr (JObj [(''texts'', JArr [])]))))
      = \<lparr>status = 200, body = JObj [(''embeddings'', JArr [])]\<rparr>"
    by (simp add: embed_def embed_try_def)
  from
    handlers_catch_exceptions
      [where encode = "\<lambda>call. Inl (Raised ''out of memory'')"
         and req = "Request (Inr (JObj [(''text'', JStr ''hello'')]))"
         and evs' = "[Model_encode \<lparr>texts = [JStr ''hello''], batch_size = None,
                        max_length = 512\<rparr>]"
         and e' = "Raised ''out of memory''"]
    handlers_catch_exceptions
      [where encode = "\<lambda>call. Inl (Raised ''out of memory'')"
         and env = Map.empty
         and req = "Request (Inl (Raised ''400 Bad Request''))"
         and evs = "[]" and e = "Raised ''400 Bad Request''"]
    single batch empty
  show ?thesis
    by (simp add: serve_def)
qed

text \<open>
  C9. \<open>/embed\<close> does not look at the elements of \<open>texts\<close>. For every non-empty list
  within the maximum, whatever its elements are, the model is called once with the list as
  it came. When the model raises, the answer is status 500 with the message of the
  exception; when it returns, the answer is status 200. It is never a 400.
\<close>

theorem embed_elements_unchecked:
  assumes "get_json req = Inr (JObj kvs)" and "map_of kvs ''texts'' = Some (JArr ts)"
    and "ts \<noteq> []" and "max_batch_size env = Inr m" and "int (length ts) \<le> m"
  shows "map texts (model_calls (snd (embed env encode req))) = [ts]
         \<and> (\<forall>e. encode \<lparr>texts = ts, batch_size = Some (min (length ts) 8),
                          max_length = 512\<rparr> = Inl e
               \<longrightarrow> fst (embed env encode req) = error_response 500 (str_exc e))
         \<and> (\<forall>vecs. encode \<lparr>texts = ts, batch_size = Some (min (length ts) 8),
                             max_length = 512\<rparr> = Inr vecs
               \<longrightarrow> status (fst (embed env encode req)) = 200)"
proof (cases "encode \<lparr>texts = ts, batch_size = Some (min (length ts) 8), max_length = 512\<rparr>")
  case (Inl e)
  with embed_try_encode [OF assms, of encode] show ?thesis
    by (simp add: embed_def)
next
  case (Inr vecs)
  with embed_try_encode [OF assms, of encode] show ?thesis
    by (simp add: embed_def)
qed

text \<open>
  The body \<open>{"texts": [1, null, {}]}\<close> with a model that raises on it: the call is made
  and the answer is 500.
\<close>

theorem embed_elements_unchecked_witness:
  "map texts (model_calls (snd (embed Map.empty
       (\<lambda>call. Inl (Raised ''expected str''))
       (Request (Inr (JObj [(''texts'', JArr [JInt 1, JNull, JObj []])]))))))
     = [[JInt 1, JNull, JObj []]]
   \<and> fst (embed Map.empty (\<lambda>call. Inl (Raised ''expected str''))
       (Request (Inr (JObj [(''texts'', JArr [JInt 1, JNull, JObj []])]))))
     = \<lparr>status = 500, body = JObj [(''error'', JStr ''expected str'')]\<rparr>"
proof -
  have limit: "max_batch_size Map.empty = Inr 32"
    by (simp add: max_batch_size_def)
  show ?thesis
    using embed_elements_unchecked
        [of "Request (Inr (JObj [(''texts'', JArr [JInt 1, JNull, JObj []])]))"
            "[(''texts'', JArr [JInt 1, JNull, JObj []])]" "[JInt 1, JNull, JObj []]"
            Map.empty 32 "\<lambda>call. Inl (Raised ''expected str'')", OF _ _ _ limit]
    by (simp add: error_response_def)
qed

text \<open>
  Without "non-empty" the claim fails: the empty list is within the default maximum of
  32, and for it the model is not called.
\<close>

theorem embed_elements_unchecked_counterexample:
  "max_batch_size Map.empty = Inr 32
   \<and> int (length ([] :: json list)) \<le> 32
   \<and> model_calls (snd (embed Map.empty (\<lambda>call. Inr [])
        (Request (Inr (JObj [(''texts'', JArr [])]))))) = []"
  by (simp add: max_batch_size_def embed_def embed_try_def)

text \<open>
  C10. \<open>embed\<close> reads \<open>MAX_BATCH_SIZE\<close> inside the handler, after the return for the
  empty list. So for a request with a non-empty list, handled when the variable holds
  \<open>s\<close>: if \<open>int(s)\<close> raises, the answer is status 500 with the message of that
  \<open>ValueError\<close>, and \<open>int(s)\<close> does raise when \<open>s\<close> has a character that is no
  digit, underscore, sign or white space of \<open>int\<close>; if \<open>int(s)\<close> is \<open>m\<close>, the answer
  is a 400 exactly when the list is longer than \<open>m\<close>, and \<open>int(s)\<close> is \<open>n\<close> when
  \<open>s\<close> is the decimal of \<open>n\<close>. A request with the empty list is answered with 200
  whatever the variable holds. Two requests of one run are each answered under the value
  at their own moment.
\<close>

theorem embed_reads_limit_on_each_request:
  assumes "get_json req = Inr (JObj kvs)" and "map_of kvs ''texts'' = Some (JArr ts)"
    and "ts \<noteq> []"
    and "get_json req0 = Inr (JObj kvs0)" and "map_of kvs0 ''texts'' = Some (JArr [])"
  shows "(\<forall>s e. py_int s = Inl e \<longrightarrow>
            embed (env(''MAX_BATCH_SIZE'' \<mapsto> s)) encode req =
              (error_response 500 (str_exc e),
               [Log_error (''Error generating embeddings: '' @ str_exc e)]))
         \<and> (\<forall>s c. c \<in> set s \<and> \<not> isdigit c \<and> c \<noteq> CHR ''_'' \<and> c \<noteq> CHR ''+''
                   \<and> c \<noteq> CHR ''-'' \<and> \<not> int_space c \<longrightarrow>
            status (fst (embed (env(''MAX_BATCH_SIZE'' \<mapsto> s)) encode req)) = 500
            \<and> model_calls (snd (embed (env(''MAX_BATCH_SIZE'' \<mapsto> s)) encode req)) = [])
         \<and> (\<forall>s m. py_int s = Inr m \<longrightarrow>
            (status (fst (embed (env(''MAX_BATCH_SIZE'' \<mapsto> s)) encode req)) = 400)
              = (int (length ts) > m))
         \<and> (\<forall>n. length (str_nat n) \<le> 4300 \<longrightarrow>
            (status (fst (embed (env(''MAX_BATCH_SIZE'' \<mapsto> str_nat n)) encode req)) = 400)
              = (length ts > n))
         \<and> (\<forall>s. embed (env(''MAX_BATCH_SIZE'' \<mapsto> s)) encode req0 =
              (\<lparr>status = 200, body = JObj [(''embeddings'', JArr [])]\<rparr>, []))
         \<and> (\<forall>s s'. serve encode [(env(''MAX_BATCH_SIZE'' \<mapsto> s), Embed, req),
                                  (env(''MAX_BATCH_SIZE'' \<mapsto> s'), Embed, req)]
              = [embed (env(''MAX_BATCH_SIZE'' \<mapsto> s)) encode req,
                 embed (env(''MAX_BATCH_SIZE'' \<mapsto> s')) encode req])"
proof -
  have raises: "embed (env(''MAX_BATCH_SIZE'' \<mapsto> s)) encode req =
      (error_response 500 (str_exc e),
       [Log_error (''Error generating embeddings: '' @ str_exc e)])"
    if "py_int s = Inl e" for s e
  proof -
    from that have "max_batch_size (env(''MAX_BATCH_SIZE'' \<mapsto> s)) = Inl e"
      by (simp add: max_batch_size_def)
    from embed_raised [OF embed_try_limit_raises [OF assms(1-3) this]]
    show ?thesis by simp
  qed
  have enforced: "(status (fst (embed (env(''MAX_BATCH_SIZE'' \<mapsto> s)) encode req)) = 400)
          = (int (length ts) > m)"
    if "py_int s = Inr m" for s m
  proof -
    from that have limit: "max_batch_size (env(''MAX_BATCH_SIZE'' \<mapsto> s)) = Inr m"
      by (simp add: max_batch_size_def)
    show ?thesis
    proof (cases "int (length ts) > m")
      case True
      from embed_returned [OF embed_try_too_large [OF assms(1-3) limit True]] True
      show ?thesis by (simp add: error_response_def)
    next
      case False
      then have "int (length ts) \<le> m" by simp
      from embed_try_encode [OF assms(1-3) limit this, of encode] False
      show ?thesis
        by (cases "encode \<lparr>texts = ts, batch_size = Some (min (length ts) 8),
                           max_length = 512\<rparr>")
           (simp_all add: embed_def error_response_def)
    qed
  qed
  have "status (fst (embed (env(''MAX_BATCH_SIZE'' \<mapsto> s)) encode req)) = 500
        \<and> model_calls (snd (embed (env(''MAX_BATCH_SIZE'' \<mapsto> s)) encode req)) = []"
    if "c \<in> set s \<and> \<not> isdigit c \<and> c \<noteq> CHR ''_'' \<and> c \<noteq> CHR ''+''
        \<and> c \<noteq> CHR ''-'' \<and> \<not> int_space c" for s c
  proof -
    from that obtain m where "py_int s = Inl (ValueError m)"
      using py_int_rejects [of c s] by blast
    from raises [OF this] show ?thesis
      by (simp add: error_response_def)
  qed
  moreover have "(status (fst (embed (env(''MAX_BATCH_SIZE'' \<mapsto> str_nat n)) encode req)) = 400)
          = (length ts > n)"
    if "length (str_nat n) \<le> 4300" for n
    using enforced [OF py_int_str_nat [OF that]] by simp
  moreover have "embed (env(''MAX_BATCH_SIZE'' \<mapsto> s)) encode req0 =
      (\<lparr>status = 200, body = JObj [(''embeddings'', JArr [])]\<rparr>, [])" for s
    using embed_returned [OF embed_try_empty [OF assms(4,5)]] .
  moreover have "serve encode [(env(''MAX_BATCH_SIZE'' \<mapsto> s), Embed, req),
                      (env(''MAX_BATCH_SIZE'' \<mapsto> s'), Embed, req)]
          = [embed (env(''MAX_BATCH_SIZE'' \<mapsto> s)) encode req,
             embed (env(''MAX_BATCH_SIZE'' \<mapsto> s')) encode req]" for s s'
    by (simp add: serve_def)
  ultimately show ?thesis
    using raises enforced by blast
qed

text \<open>
  Two texts: refused when the variable holds \<open>1\<close>, not refused when it holds \<open>2\<close>,
  answered with 500 when it holds \<open>two\<close>, or \<open>32\<close> after the separator 28, or \<open>5\<close>
  before the separator 31, while the empty list is answered with 200.
\<close>

theorem embed_reads_limit_on_each_request_witness:
  "py_int ''1'' = Inr 1 \<and> py_int ''2'' = Inr 2 \<and> py_int ''two'' = Inl (invalid_literal ''two'')
   \<and> status (fst (embed [''MAX_BATCH_SIZE'' \<mapsto> ''1''] (\<lambda>call. Inr [[0], [0]])
        (Request (Inr (JObj [(''texts'', JArr [JStr ''a'', JStr ''b''])]))))) = 400
   \<and> status (fst (embed [''MAX_BATCH_SIZE'' \<mapsto> ''2''] (\<lambda>call. Inr [[0], [0]])
        (Request (Inr (JObj [(''texts'', JArr [JStr ''a'', JStr ''b''])]))))) \<noteq> 400
   \<and> fst (embed [''MAX_BATCH_SIZE'' \<mapsto> ''two''] (\<lambda>call. Inr [[0], [0]])
        (Request (Inr (JObj [(''texts'', JArr [JStr ''a'', JStr ''b''])]))))
      = error_response 500 (str_exc (invalid_literal ''two''))
   \<and> embed [''MAX_BATCH_SIZE'' \<mapsto> [CHR 0x1C, CHR ''3'', CHR ''2'']] (\<lambda>call. Inr [[0], [0]])
        (Request (Inr (JObj [(''texts'', JArr [JStr ''a'', JStr ''b''])])))
      = (error_response 500 (str_exc (invalid_literal [CHR 0x1C, CHR ''3'', CHR ''2''])),
         [Log_error (''Error generating embeddings: ''
            @ str_exc (invalid_literal [CHR 0x1C, CHR ''3'', CHR ''2'']))])
   \<and> status (fst (embed [''MAX_BATCH_SIZE'' \<mapsto> [CHR ''5'', CHR 0x1F]] (\<lambda>call. Inr [[0], [0]])
        (Request (Inr (JObj [(''texts'', JArr [JStr ''a'', JStr ''b''])]))))) = 500
   \<and> fst (embed [''MAX_BATCH_SIZE'' \<mapsto> ''two''] (\<lambda>call. Inr [[0], [0]])
        (Request (Inr (JObj [(''texts'', JArr [])]))))
      = \<lparr>status = 200, body = JObj [(''embeddings'', JArr [])]\<rparr>"
proof -
  have p1: "py_int ''1'' = Inr 1" and p2: "py_int ''2'' = Inr 2"
    and p3: "py_int ''two'' = Inl (invalid_literal ''two'')"
    by code_simp+
  have "get_json (Request (Inr (JObj [(''texts'', JArr [JStr ''a'', JStr ''b''])])))
          = Inr (JObj [(''texts'', JArr [JStr ''a'', JStr ''b''])])"
    and "map_of [(''texts'', JArr [JStr ''a'', JStr ''b''])] ''texts''
          = Some (JArr [JStr ''a'', JStr ''b''])"
    and "[JStr ''a'', JStr ''b''] \<noteq> []"
    and "get_json (Request (Inr (JObj [(''texts'', JArr [])])))
          = Inr (JObj [(''texts'', JArr [])])"
    and "map_of [(''texts'', JArr [])] ''texts'' = Some (JArr [])"
    by simp_all
  note inst = embed_reads_limit_on_each_request
    [OF this, of Map.empty "\<lambda>call. Inr [[0], [0]]"]
  from inst p1 have a: "status (fst (embed [''MAX_BATCH_SIZE'' \<mapsto> ''1'']
        (\<lambda>call. Inr [[0], [0]])
        (Request (Inr (JObj [(''texts'', JArr [JStr ''a'', JStr ''b''])]))))) = 400"
    by simp
  from inst p2 have b: "status (fst (embed [''MAX_BATCH_SIZE'' \<mapsto> ''2'']
        (\<lambda>call. Inr [[0], [0]])
        (Request (Inr (JObj [(''texts'', JArr [JStr ''a'', JStr ''b''])]))))) \<noteq> 400"
    by simp
  from inst p3 have c: "fst (embed [''MAX_BATCH_SIZE'' \<mapsto> ''two'']
        (\<lambda>call. Inr [[0], [0]])
        (Request (Inr (JObj [(''texts'', JArr [JStr ''a'', JStr ''b''])]))))
      = error_response 500 (str_exc (invalid_literal ''two''))"
    by simp
  from inst py_int_separators(1)
  have d: "embed [''MAX_BATCH_SIZE'' \<mapsto> [CHR 0x1C, CHR ''3'', CHR ''2'']]
        (\<lambda>call. Inr [[0], [0]])
        (Request (Inr (JObj [(''texts'', JArr [JStr ''a'', JStr ''b''])])))
      = (error_response 500 (str_exc (invalid_literal [CHR 0x1C, CHR ''3'', CHR ''2''])),
         [Log_error (''Error generating embeddings: ''
            @ str_exc (invalid_literal [CHR 0x1C, CHR ''3'', CHR ''2'']))])"
    by simp
  have "CHR 0x1F \<in> set [CHR ''5'', CHR 0x1F] \<and> \<not> isdigit (CHR 0x1F) \<and> CHR 0x1F \<noteq> CHR ''_''
      \<and> CHR 0x1F \<noteq> CHR ''+'' \<and> CHR 0x1F \<noteq> CHR ''-'' \<and> \<not> int_space (CHR 0x1F)"
    by (simp add: isdigit_def int_space_def)
  with inst have e: "status (fst (embed [''MAX_BATCH_SIZE'' \<mapsto> [CHR ''5'', CHR 0x1F]]
        (\<lambda>call. Inr [[0], [0]])
        (Request (Inr (JObj [(''texts'', JArr [JStr ''a'', JStr ''b''])]))))) = 500"
    by blast
  from inst have f: "fst (embed [''MAX_BATCH_SIZE'' \<mapsto> ''two'']
        (\<lambda>call. Inr [[0], [0]])
        (Request (Inr (JObj [(''texts'', JArr [])]))))
      = \<lparr>status = 200, body = JObj [(''embeddings'', JArr [])]\<rparr>"
    by simp
  from p1 p2 p3 a b c d e f show ?thesis by blast
qed

end
